theory Spec2Isabelle
  imports Main
begin

section \<open>KubernetesStatefulsetPatch: data model\<close>

text \<open>
  Source: \<^verbatim>\<open>lib/charms/comsys_libs/v0/kubernetes_statefulset_patch.py\<close>.

  The values a caller puts into a resource dictionary, and the values found in the
  \<^verbatim>\<open>limits\<close> and \<^verbatim>\<open>requests\<close> dictionaries of a container, are Python objects.
  The model covers \<^verbatim>\<open>None\<close>, \<^verbatim>\<open>str\<close>, \<^verbatim>\<open>int\<close> and finite \<^verbatim>\<open>float\<close>.
  A finite float is a binary fraction: \<open>PFloat m e s\<close> is the float of value
  \<open>m * 2 ^ e\<close>, given together with the string \<open>s\<close> that \<^verbatim>\<open>str\<close> returns for it (the
  shortest decimal that reads back as the same float, which the model does not compute):
  \<^verbatim>\<open>0.5\<close> is \<open>PFloat 1 (-1) ''0.5''\<close> and \<^verbatim>\<open>1.0\<close> is \<open>PFloat 1 0 ''1.0''\<close>.
  \<^verbatim>\<open>bool\<close> values, \<^verbatim>\<open>nan\<close> and the infinities are outside the model.
\<close>

datatype pyval = PNone | PStr string | PInt int | PFloat int int string

type_synonym pydict = "string \<rightharpoonup> pyval"

text \<open>\<^verbatim>\<open>str(n)\<close> for a Python \<^verbatim>\<open>int\<close>: the decimal digits, with a leading minus sign.\<close>

definition digit_char :: "nat \<Rightarrow> char" where
  "digit_char d = ''0123456789'' ! (d mod 10)"

function str_nat :: "nat \<Rightarrow> string" where
  "str_nat n = (if n < 10 then [digit_char n] else str_nat (n div 10) @ [digit_char (n mod 10)])"
  by pat_completeness auto
termination
  by (relation "measure (\<lambda>n. n)") auto

declare str_nat.simps [simp del]

definition str_int :: "int \<Rightarrow> string" where
  "str_int i = (if i < 0 then CHR ''-'' # str_nat (nat (- i)) else str_nat (nat i))"

text \<open>\<^verbatim>\<open>str(v)\<close>: \<^verbatim>\<open>str(None)\<close> is the four-letter string \<^verbatim>\<open>"None"\<close>.\<close>

fun py_str :: "pyval \<Rightarrow> string" where
  "py_str PNone = ''None''"
| "py_str (PStr s) = s"
| "py_str (PInt i) = str_int i"
| "py_str (PFloat m e s) = s"

text \<open>Python's \<^verbatim>\<open>==\<close>: numbers are compared by value, an \<^verbatim>\<open>int\<close> with a \<^verbatim>\<open>float\<close>
  as well; a string equals strings only, \<^verbatim>\<open>None\<close> equals \<^verbatim>\<open>None\<close> only.\<close>

definition dyadic_eq :: "int \<Rightarrow> int \<Rightarrow> int \<Rightarrow> int \<Rightarrow> bool" where
  "dyadic_eq m e m' e' =
     (let k = min e e' in m * 2 ^ nat (e - k) = m' * 2 ^ nat (e' - k))"

fun py_eq :: "pyval \<Rightarrow> pyval \<Rightarrow> bool" where
  "py_eq (PInt i) (PFloat m e s) = dyadic_eq i 0 m e"
| "py_eq (PFloat m e s) (PInt i) = dyadic_eq m e i 0"
| "py_eq (PFloat m e s) (PFloat m' e' s') = dyadic_eq m e m' e'"
| "py_eq a b = (a = b)"

text \<open>\<^verbatim>\<open>d.get(k)\<close>: the value stored under \<open>k\<close>, \<^verbatim>\<open>None\<close> when the key is absent.\<close>

definition py_get :: "pydict \<Rightarrow> string \<Rightarrow> pyval" where
  "py_get d k = (case d k of None \<Rightarrow> PNone | Some v \<Rightarrow> v)"

text \<open>\<^verbatim>\<open>d or {}\<close> for an optional dictionary: \<^verbatim>\<open>None\<close> and the empty dictionary both
  give the empty dictionary.\<close>

definition or_empty :: "pydict option \<Rightarrow> pydict" where
  "or_empty d = (case d of None \<Rightarrow> Map.empty | Some m \<Rightarrow> m)"

text \<open>lightkube's \<^verbatim>\<open>ResourceRequirements\<close> (both fields optional), a \<^verbatim>\<open>Container\<close> with
  its optional \<^verbatim>\<open>resources\<close> field, and the \<^verbatim>\<open>StatefulSet\<close>, of which the handler
  reads \<^verbatim>\<open>spec.template.spec.containers\<close>.\<close>

record resource_requirements =
  limits :: "pydict option"
  requests :: "pydict option"

record container =
  name :: string
  resources :: "resource_requirements option"

record statefulset =
  metadata_name :: string
  containers :: "container list"

datatype error = ConfigError | ApiError nat | AttributeError | OSError

text \<open>The object the handlers are methods of: \<^verbatim>\<open>self.statefulset_name\<close> and
  \<^verbatim>\<open>self.resource_updates\<close> (container name to resource dictionary).\<close>

record patcher =
  statefulset_name :: string
  resource_updates :: "string \<rightharpoonup> pydict"

section \<open>The collaborators: API client, namespace file, logger\<close>

datatype api_call =
    Get string string
  | Patch string string statefulset
  | Delete string string

datatype log_record =
    Info_patched string
  | Debug_no_updates string
  | Error_failed error
  | Info_deleted string

text \<open>
  The world a handler runs in: whether \<^verbatim>\<open>Client()\<close> can be configured, the stripped
  contents of the namespace file (\<open>None\<close> when it cannot be read), the objects of the
  cluster by (name, namespace), an API error status that the server answers to each kind
  of request (\<open>None\<close> when it serves the request), and the trace of the API calls and
  of the log records written so far.
\<close>

record world =
  config_error :: bool
  namespace_file :: "string option"
  objects :: "string \<times> string \<rightharpoonup> statefulset"
  get_fault :: "nat option"
  patch_fault :: "nat option"
  delete_fault :: "nat option"
  calls :: "api_call list"
  logs :: "log_record list"

text \<open>Modelled from the spec: the three operations of the Kubernetes API client
  (lightkube, an external library). GET answers the object or a not-found/API error;
  PATCH (merge) with the complete object answers success or an API error, and the
  object then served is the one submitted; DELETE answers success, not-found or another
  API error.\<close>

definition api_get :: "string \<Rightarrow> string \<Rightarrow> world \<Rightarrow> (error + statefulset) \<times> world" where
  "api_get n ns w =
     (let w' = w\<lparr>calls := calls w @ [Get n ns]\<rparr> in
      case get_fault w of
        Some code \<Rightarrow> (Inl (ApiError code), w')
      | None \<Rightarrow>
          (case objects w (n, ns) of
             None \<Rightarrow> (Inl (ApiError 404), w')
           | Some s \<Rightarrow> (Inr s, w')))"

definition api_patch :: "string \<Rightarrow> string \<Rightarrow> statefulset \<Rightarrow> world \<Rightarrow> error option \<times> world" where
  "api_patch n ns obj w =
     (let w' = w\<lparr>calls := calls w @ [Patch n ns obj]\<rparr> in
      case patch_fault w of
        Some code \<Rightarrow> (Some (ApiError code), w')
      | None \<Rightarrow>
          (case objects w (n, ns) of
             None \<Rightarrow> (Some (ApiError 404), w')
           | Some s \<Rightarrow> (None, w'\<lparr>objects := (objects w)((n, ns) \<mapsto> obj)\<rparr>)))"

definition api_delete :: "string \<Rightarrow> string \<Rightarrow> world \<Rightarrow> error option \<times> world" where
  "api_delete n ns w =
     (let w' = w\<lparr>calls := calls w @ [Delete n ns]\<rparr> in
      case delete_fault w of
        Some code \<Rightarrow> (Some (ApiError code), w')
      | None \<Rightarrow>
          (case objects w (n, ns) of
             None \<Rightarrow> (Some (ApiError 404), w')
           | Some s \<Rightarrow> (None, w'\<lparr>objects := (objects w)((n, ns) := None)\<rparr>)))"

definition log :: "log_record \<Rightarrow> world \<Rightarrow> world" where
  "log r w = w\<lparr>logs := logs w @ [r]\<rparr>"

section \<open>The handlers\<close>

text \<open>
  The Python names start with an underscore, which an Isabelle name cannot:
  \<open>build_resource_requirements\<close> is \<^verbatim>\<open>_build_resource_requirements\<close>, \<open>is_patched\<close>
  is \<^verbatim>\<open>_is_patched\<close>, \<open>patch_statefulset\<close> is \<^verbatim>\<open>_patch_statefulset\<close> and
  \<open>remove_statefulset\<close> is \<^verbatim>\<open>_remove_statefulset\<close>.
\<close>

definition build_resource_requirements :: "pydict \<Rightarrow> resource_requirements" where
  "build_resource_requirements rs =
     (let lim = Map.empty;
          req = Map.empty;
          (lim, req) =
            (case rs ''memory'' of
               None \<Rightarrow> (lim, req)
             | Some m \<Rightarrow> (lim(''memory'' \<mapsto> m), req(''memory'' \<mapsto> m)));
          (lim, req) =
            (case rs ''cpu'' of
               None \<Rightarrow> (lim, req)
             | Some c \<Rightarrow> (lim(''cpu'' \<mapsto> PStr (py_str c)), req(''cpu'' \<mapsto> PStr (py_str c))))
      in \<lparr>limits = Some lim, requests = Some req\<rparr>)"

text \<open>\<^verbatim>\<open>container.resources.limits\<close> on a container whose \<^verbatim>\<open>resources\<close> is \<^verbatim>\<open>None\<close>
  raises \<^verbatim>\<open>AttributeError\<close>.\<close>

definition is_patched :: "container \<Rightarrow> pydict \<Rightarrow> error + bool" where
  "is_patched c rs =
     (case resources c of
        None \<Rightarrow> Inl AttributeError
      | Some rr \<Rightarrow>
          (let current_limits = or_empty (limits rr);
               current_requests = or_empty (requests rr);
               desired_memory = py_get rs ''memory'';
               desired_cpu = PStr (py_str (py_get rs ''cpu''));
               is_memory_patched =
                 (py_eq (py_get current_limits ''memory'') desired_memory
                  \<and> py_eq (py_get current_requests ''memory'') desired_memory);
               is_cpu_patched =
                 (py_eq (py_get current_limits ''cpu'') desired_cpu
                  \<and> py_eq (py_get current_requests ''cpu'') desired_cpu)
           in Inr (is_memory_patched \<and> is_cpu_patched)))"

text \<open>The \<^verbatim>\<open>for container in ...containers\<close> loop of \<^verbatim>\<open>_patch_statefulset\<close>: the
  containers after the loop and the flag \<^verbatim>\<open>needs_patching\<close>, or the exception that left
  the loop.\<close>

fun patch_containers ::
  "(string \<rightharpoonup> pydict) \<Rightarrow> container list \<Rightarrow> bool \<Rightarrow> error + (container list \<times> bool)" where
  "patch_containers ru [] needs_patching = Inr ([], needs_patching)"
| "patch_containers ru (c # cs) needs_patching =
     (case ru (name c) of
        None \<Rightarrow>
          (case patch_containers ru cs needs_patching of
             Inl e \<Rightarrow> Inl e
           | Inr (cs', np) \<Rightarrow> Inr (c # cs', np))
      | Some rs \<Rightarrow>
          (case is_patched c rs of
             Inl e \<Rightarrow> Inl e
           | Inr True \<Rightarrow>
               (case patch_containers ru cs needs_patching of
                  Inl e \<Rightarrow> Inl e
                | Inr (cs', np) \<Rightarrow> Inr (c # cs', np))
           | Inr False \<Rightarrow>
               (case patch_containers ru cs True of
                  Inl e \<Rightarrow> Inl e
                | Inr (cs', np) \<Rightarrow>
                    Inr (c\<lparr>resources := Some (build_resource_requirements rs)\<rparr> # cs', np))))"

text \<open>The body of the \<^verbatim>\<open>try\<close> block of \<^verbatim>\<open>_patch_statefulset\<close>: the exception raised,
  if any, and the world afterwards. The namespace file is read for each call that takes
  the namespace.\<close>

definition patch_statefulset_try :: "patcher \<Rightarrow> world \<Rightarrow> error option \<times> world" where
  "patch_statefulset_try p w =
     (if config_error w then (Some ConfigError, w)
      else case namespace_file w of
        None \<Rightarrow> (Some OSError, w)
      | Some ns \<Rightarrow>
          (case api_get (statefulset_name p) ns w of
             (Inl e, w1) \<Rightarrow> (Some e, w1)
           | (Inr s, w1) \<Rightarrow>
               (case patch_containers (resource_updates p) (containers s) False of
                  Inl e \<Rightarrow> (Some e, w1)
                | Inr (cs', needs_patching) \<Rightarrow>
                    if needs_patching then
                      (case namespace_file w1 of
                         None \<Rightarrow> (Some OSError, w1)
                       | Some ns' \<Rightarrow>
                           (case api_patch (statefulset_name p) ns' (s\<lparr>containers := cs'\<rparr>) w1 of
                              (Some e, w2) \<Rightarrow> (Some e, w2)
                            | (None, w2) \<Rightarrow> (None, log (Info_patched (statefulset_name p)) w2)))
                    else (None, log (Debug_no_updates (statefulset_name p)) w1))))"

text \<open>\<^verbatim>\<open>except (exceptions.ConfigError, ApiError) as e\<close>: log and re-raise; every other
  exception passes through.\<close>

fun caught :: "error \<Rightarrow> bool" where
  "caught ConfigError = True"
| "caught (ApiError code) = True"
| "caught AttributeError = False"
| "caught OSError = False"

definition patch_statefulset :: "patcher \<Rightarrow> world \<Rightarrow> error option \<times> world" where
  "patch_statefulset p w =
     (case patch_statefulset_try p w of
        (None, w') \<Rightarrow> (None, w')
      | (Some e, w') \<Rightarrow> if caught e then (Some e, log (Error_failed e) w') else (Some e, w'))"

text \<open>\<^verbatim>\<open>_remove_statefulset\<close>: \<^verbatim>\<open>Client()\<close> is outside the \<^verbatim>\<open>try\<close>; the handler
  catches \<^verbatim>\<open>ApiError\<close> only, and returns on status 404.\<close>

definition remove_statefulset :: "patcher \<Rightarrow> world \<Rightarrow> error option \<times> world" where
  "remove_statefulset p w =
     (if config_error w then (Some ConfigError, w)
      else case namespace_file w of
        None \<Rightarrow> (Some OSError, w)
      | Some ns \<Rightarrow>
          (case api_delete (statefulset_name p) ns w of
             (None, w1) \<Rightarrow> (None, log (Info_deleted (statefulset_name p)) w1)
           | (Some (ApiError code), w1) \<Rightarrow>
               if code = 404 then (None, w1) else (Some (ApiError code), w1)
           | (Some e, w1) \<Rightarrow> (Some e, w1)))"

section \<open>Reading a trace\<close>

text \<open>The API calls a handler added to the trace, and the objects submitted by the
  PATCH calls among them.\<close>

definition new_calls :: "world \<Rightarrow> world \<Rightarrow> api_call list" where
  "new_calls w w' = drop (length (calls w)) (calls w')"

fun patches_of :: "api_call list \<Rightarrow> statefulset list" where
  "patches_of [] = []"
| "patches_of (Patch n ns obj # cs) = obj # patches_of cs"
| "patches_of (c # cs) = patches_of cs"

section \<open>Notions used to state the properties\<close>

text \<open>The initial GET of a reconcile is served: the client can be configured, the
  namespace file reads \<open>ns\<close>, and the server answers the object \<open>s\<close>.\<close>

definition get_ok :: "patcher \<Rightarrow> world \<Rightarrow> string \<Rightarrow> statefulset \<Rightarrow> bool" where
  "get_ok p w ns s \<longleftrightarrow>
     \<not> config_error w \<and> namespace_file w = Some ns \<and> get_fault w = None
     \<and> objects w (statefulset_name p, ns) = Some s"

text \<open>A container is managed when its name is a key of the desired mapping; it drifts
  when it is managed and the drift check \<open>is_patched\<close> answers \<^verbatim>\<open>False\<close>.\<close>

definition drifts :: "(string \<rightharpoonup> pydict) \<Rightarrow> container \<Rightarrow> bool" where
  "drifts ru c = (case ru (name c) of None \<Rightarrow> False | Some rs \<Rightarrow> is_patched c rs = Inr False)"

definition lacks_resources :: "(string \<rightharpoonup> pydict) \<Rightarrow> container \<Rightarrow> bool" where
  "lacks_resources ru c = (case ru (name c) of None \<Rightarrow> False | Some rs \<Rightarrow> resources c = None)"

text \<open>What one pass of the loop body leaves of a container.\<close>

definition mutated :: "(string \<rightharpoonup> pydict) \<Rightarrow> container \<Rightarrow> container" where
  "mutated ru c =
     (case ru (name c) of
        None \<Rightarrow> c
      | Some rs \<Rightarrow>
          if is_patched c rs = Inr False
          then c\<lparr>resources := Some (build_resource_requirements rs)\<rparr> else c)"

text \<open>
  Reading a decimal numeral: \<open>decimal_value\<close> is the integer a string of digits with an
  optional leading minus sign denotes, \<open>canonical\<close> says that the string has no leading
  zero and is not \<^verbatim>\<open>-0\<close>, and \<open>is_decimal_of s i\<close> that \<open>s\<close> is the decimal numeral of
  \<open>i\<close>, which is what \<^verbatim>\<open>str\<close> returns for an \<^verbatim>\<open>int\<close>.
\<close>

definition digit_val :: "char \<Rightarrow> nat option" where
  "digit_val c =
     (let n = (of_char c :: nat) in if 48 \<le> n \<and> n \<le> 57 then Some (n - 48) else None)"

fun dec_nat :: "string \<Rightarrow> nat \<Rightarrow> nat option" where
  "dec_nat [] acc = Some acc"
| "dec_nat (c # cs) acc =
     (case digit_val c of None \<Rightarrow> None | Some d \<Rightarrow> dec_nat cs (10 * acc + d))"

definition decimal_value :: "string \<Rightarrow> int option" where
  "decimal_value s =
     (case s of
        [] \<Rightarrow> None
      | c # cs \<Rightarrow>
          if c = CHR ''-''
          then (if cs = [] then None else map_option (\<lambda>n. - int n) (dec_nat cs 0))
          else map_option int (dec_nat s 0))"

definition canonical :: "string \<Rightarrow> bool" where
  "canonical s =
     (case s of
        [] \<Rightarrow> False
      | c # cs \<Rightarrow>
          if c = CHR ''-'' then (case cs of [] \<Rightarrow> False | d # ds \<Rightarrow> d \<noteq> CHR ''0'')
          else c \<noteq> CHR ''0'' \<or> cs = [])"

definition is_decimal_of :: "string \<Rightarrow> int \<Rightarrow> bool" where
  "is_decimal_of s i \<longleftrightarrow> decimal_value s = Some i \<and> canonical s"

section \<open>Example inputs\<close>

definition cluster_with :: "string \<Rightarrow> string \<Rightarrow> statefulset \<Rightarrow> world" where
  "cluster_with n ns s =
     \<lparr>config_error = False, namespace_file = Some ns, objects = [(n, ns) \<mapsto> s],
      get_fault = None, patch_fault = None, delete_fault = None, calls = [], logs = []\<rparr>"

definition live_container :: "string \<Rightarrow> pydict \<Rightarrow> container" where
  "live_container n d = \<lparr>name = n, resources = Some \<lparr>limits = Some d, requests = Some d\<rparr>\<rparr>"

definition bare_container :: "string \<Rightarrow> container" where
  "bare_container n = \<lparr>name = n, resources = None\<rparr>"

definition unset_container :: "string \<Rightarrow> container" where
  "unset_container n = \<lparr>name = n, resources = Some \<lparr>limits = None, requests = None\<rparr>\<rparr>"

definition app_patcher :: "(string \<rightharpoonup> pydict) \<Rightarrow> patcher" where
  "app_patcher ru = \<lparr>statefulset_name = ''app'', resource_updates = ru\<rparr>"

definition app_cluster :: "container list \<Rightarrow> world" where
  "app_cluster cs = cluster_with ''app'' ''model'' \<lparr>metadata_name = ''app'', containers = cs\<rparr>"

definition ab_spec :: pydict where
  "ab_spec = [''memory'' \<mapsto> PStr ''1Gi'', ''cpu'' \<mapsto> PInt 1]"

definition ab_patcher :: patcher where
  "ab_patcher = app_patcher [''A'' \<mapsto> ab_spec]"

definition ab_live :: "container list" where
  "ab_live =
     [live_container ''A''
        [''memory'' \<mapsto> PStr ''512Mi'', ''cpu'' \<mapsto> PStr ''1'', ''ephemeral-storage'' \<mapsto> PStr ''1Gi''],
      live_container ''B'' [''memory'' \<mapsto> PStr ''2Gi'', ''cpu'' \<mapsto> PStr ''2'']]"

definition ab_patched :: statefulset where
  "ab_patched =
     \<lparr>metadata_name = ''app'',
      containers =
        [live_container ''A'' [''memory'' \<mapsto> PStr ''1Gi'', ''cpu'' \<mapsto> PStr ''1''],
         live_container ''B'' [''memory'' \<mapsto> PStr ''2Gi'', ''cpu'' \<mapsto> PStr ''2'']]\<rparr>"

definition empty_spec_patcher :: patcher where
  "empty_spec_patcher = app_patcher [''charm'' \<mapsto> Map.empty]"

definition empty_spec_live :: "container list" where
  "empty_spec_live = [live_container ''charm'' [''memory'' \<mapsto> PStr ''1Gi'']]"

definition empty_spec_patched :: statefulset where
  "empty_spec_patched =
     \<lparr>metadata_name = ''app'', containers = [live_container ''charm'' Map.empty]\<rparr>"

definition absent_cluster :: world where
  "absent_cluster = cluster_with ''other'' ''model'' \<lparr>metadata_name = ''other'', containers = []\<rparr>"

definition scenario_patcher :: patcher where
  "scenario_patcher =
     app_patcher [''charm'' \<mapsto> [''memory'' \<mapsto> PStr ''1Gi'', ''cpu'' \<mapsto> PInt 1],
                  ''app'' \<mapsto> [''memory'' \<mapsto> PStr ''2Gi'', ''cpu'' \<mapsto> PInt 2]]"

definition scenario_live :: "container list" where
  "scenario_live =
     [live_container ''charm'' [''memory'' \<mapsto> PStr ''512Mi'', ''cpu'' \<mapsto> PStr ''1''],
      live_container ''app'' [''memory'' \<mapsto> PStr ''2Gi'', ''cpu'' \<mapsto> PStr ''2'']]"

definition scenario_patched :: statefulset where
  "scenario_patched =
     \<lparr>metadata_name = ''app'',
      containers =
        [live_container ''charm'' [''memory'' \<mapsto> PStr ''1Gi'', ''cpu'' \<mapsto> PStr ''1''],
         live_container ''app'' [''memory'' \<mapsto> PStr ''2Gi'', ''cpu'' \<mapsto> PStr ''2'']]\<rparr>"

definition raising_patcher :: patcher where
  "raising_patcher =
     app_patcher [''a'' \<mapsto> [''cpu'' \<mapsto> PInt 1], ''b'' \<mapsto> [''cpu'' \<mapsto> PInt 1]]"

definition raising_live :: "container list" where
  "raising_live = [unset_container ''a'', bare_container ''b'']"

definition memory_only_patcher :: patcher where
  "memory_only_patcher = app_patcher [''charm'' \<mapsto> [''memory'' \<mapsto> PStr ''1Gi'']]"

definition memory_only_live :: "container list" where
  "memory_only_live = [live_container ''charm'' [''memory'' \<mapsto> PStr ''512Mi'']]"

definition memory_only_patched :: statefulset where
  "memory_only_patched =
     \<lparr>metadata_name = ''app'',
      containers = [live_container ''charm'' [''memory'' \<mapsto> PStr ''1Gi'']]\<rparr>"

text \<open>Two reconciles in succession, the second in the world the first one left.\<close>

definition memory_only_first :: "error option \<times> world" where
  "memory_only_first = patch_statefulset memory_only_patcher (app_cluster memory_only_live)"

definition memory_only_second :: "error option \<times> world" where
  "memory_only_second = patch_statefulset memory_only_patcher (snd memory_only_first)"

definition cpu_one_spec :: pydict where
  "cpu_one_spec = [''cpu'' \<mapsto> PInt 1]"

definition cpu_sixteen_spec :: pydict where
  "cpu_sixteen_spec = [''cpu'' \<mapsto> PInt 16]"

definition cpu_half_spec :: pydict where
  "cpu_half_spec = [''memory'' \<mapsto> PStr ''1Gi'', ''cpu'' \<mapsto> PFloat 1 (- 1) ''0.5'']"

definition cpu_float_one_spec :: pydict where
  "cpu_float_one_spec = [''cpu'' \<mapsto> PFloat 1 0 ''1.0'']"

definition cpu_one_live :: container where
  "cpu_one_live = live_container ''charm'' [''cpu'' \<mapsto> PStr ''1'']"

definition cpu_one_memory_live :: container where
  "cpu_one_memory_live =
     live_container ''charm'' [''memory'' \<mapsto> PStr ''1Gi'', ''cpu'' \<mapsto> PStr ''1'']"

section \<open>Unfolding rules\<close>

lemmas model_defs =
  patch_statefulset_def patch_statefulset_try_def api_get_def api_patch_def api_delete_def
  log_def is_patched_def build_resource_requirements_def py_get_def or_empty_def new_calls_def
  get_ok_def drifts_def lacks_resources_def mutated_def remove_statefulset_def Let_def
  str_int_def str_nat.simps digit_char_def dyadic_eq_def

lemmas example_defs =
  cluster_with_def live_container_def bare_container_def unset_container_def app_patcher_def
  app_cluster_def

section \<open>Values\<close>

text \<open>\<open>str_int\<close> returns the decimal numeral of its argument.\<close>

lemma digit_disj:
  "k < (10::nat) \<Longrightarrow>
     k = 0 \<or> k = 1 \<or> k = 2 \<or> k = 3 \<or> k = 4 \<or> k = 5 \<or> k = 6 \<or> k = 7 \<or> k = 8 \<or> k = 9"
  by arith

lemma digit_cases:
  assumes "k < (10::nat)"
  obtains "k = 0" | "k = 1" | "k = 2" | "k = 3" | "k = 4" | "k = 5" | "k = 6" | "k = 7"
    | "k = 8" | "k = 9"
  using digit_disj [OF assms] by blast

lemma digit_val_digit_char: "k < 10 \<Longrightarrow> digit_val (digit_char k) = Some k"
  by (erule digit_cases) (simp_all add: digit_val_def digit_char_def)

lemma digit_char_zero: "k < 10 \<Longrightarrow> digit_char k = CHR ''0'' \<longleftrightarrow> k = 0"
  by (erule digit_cases) (simp_all add: digit_char_def)

lemma digit_char_not_minus: "k < 10 \<Longrightarrow> digit_char k \<noteq> CHR ''-''"
  by (erule digit_cases) (simp_all add: digit_char_def)

lemma dec_nat_append:
  "dec_nat (xs @ ys) acc = (case dec_nat xs acc of None \<Rightarrow> None | Some m \<Rightarrow> dec_nat ys m)"
  by (induction xs arbitrary: acc) (auto split: option.splits)

lemma dec_nat_str_nat: "dec_nat (str_nat n) 0 = Some n"
proof (induction n rule: str_nat.induct)
  case (1 n)
  show ?case
  proof (cases "n < 10")
    case True
    then show ?thesis
      by (subst str_nat.simps) (simp add: digit_val_digit_char)
  next
    case False
    with 1 have "dec_nat (str_nat (n div 10)) 0 = Some (n div 10)" by simp
    with False show ?thesis
      by (subst str_nat.simps) (simp add: dec_nat_append digit_val_digit_char)
  qed
qed

lemma str_nat_head:
  "str_nat n \<noteq> [] \<and> hd (str_nat n) \<noteq> CHR ''-'' \<and> (hd (str_nat n) = CHR ''0'' \<longrightarrow> str_nat n = ''0'')"
proof (induction n rule: str_nat.induct)
  case (1 n)
  show ?case
  proof (cases "n < 10")
    case True
    then show ?thesis
      by (subst (1 2 3 4) str_nat.simps) (auto simp: digit_char_zero digit_char_not_minus)
  next
    case False
    with 1 have ih: "str_nat (n div 10) \<noteq> []" "hd (str_nat (n div 10)) \<noteq> CHR ''-''"
      "hd (str_nat (n div 10)) = CHR ''0'' \<longrightarrow> str_nat (n div 10) = ''0''"
      by simp_all
    have "str_nat (n div 10) \<noteq> ''0''"
    proof
      assume "str_nat (n div 10) = ''0''"
      then have "dec_nat ''0'' 0 = Some (n div 10)" using dec_nat_str_nat [of "n div 10"] by simp
      then have "n div 10 = 0" by (simp add: digit_val_def)
      with False show False by simp
    qed
    with ih False show ?thesis
      by (subst (1 2 3 4) str_nat.simps) simp
  qed
qed

lemma str_int_decimal: "is_decimal_of (str_int i) i"
proof (cases "i < 0")
  case True
  let ?n = "nat (- i)"
  from str_nat_head [of ?n] obtain d ds where s: "str_nat ?n = d # ds"
    by (cases "str_nat ?n") auto
  have "str_nat ?n \<noteq> ''0''"
  proof
    assume "str_nat ?n = ''0''"
    then have "dec_nat ''0'' 0 = Some ?n" using dec_nat_str_nat [of ?n] by simp
    then have "?n = 0" by (simp add: digit_val_def)
    with True show False by simp
  qed
  with str_nat_head [of ?n] s have "d \<noteq> CHR ''0''" by auto
  with True s dec_nat_str_nat [of ?n] show ?thesis
    by (simp add: is_decimal_of_def decimal_value_def canonical_def str_int_def)
next
  case False
  let ?n = "nat i"
  from str_nat_head [of ?n] obtain d ds where s: "str_nat ?n = d # ds"
    by (cases "str_nat ?n") auto
  with str_nat_head [of ?n] have "d \<noteq> CHR ''-''" and "d = CHR ''0'' \<longrightarrow> ds = []" by auto
  with False s dec_nat_str_nat [of ?n] show ?thesis
    by (auto simp: is_decimal_of_def decimal_value_def canonical_def str_int_def)
qed

text \<open>\<^verbatim>\<open>==\<close> is reflexive on the values of the model; against \<^verbatim>\<open>None\<close> and against a
  string it is identity.\<close>

lemma py_eq_refl: "py_eq v v"
  by (cases v) (simp_all add: dyadic_eq_def)

lemma py_eq_PNone: "py_eq v PNone \<longleftrightarrow> v = PNone"
  by (cases v) simp_all

lemma py_eq_PStr: "py_eq v (PStr s) \<longleftrightarrow> v = PStr s"
  by (cases v) simp_all

section \<open>The drift check and the builder\<close>

lemma is_patched_Inl:
  "is_patched c rs = Inl e \<longleftrightarrow> resources c = None \<and> e = AttributeError"
  by (auto simp: is_patched_def Let_def split: option.splits)

lemma is_patched_cases:
  "resources c \<noteq> None \<Longrightarrow> is_patched c rs = Inr True \<or> is_patched c rs = Inr False"
  by (auto simp: is_patched_def Let_def split: option.splits)

lemma build_resource_requirements_eq:
  "build_resource_requirements rs =
     \<lparr>limits = Some (\<lambda>k. if k = ''cpu'' then map_option (\<lambda>c. PStr (py_str c)) (rs ''cpu'')
                        else if k = ''memory'' then rs ''memory'' else None),
      requests = Some (\<lambda>k. if k = ''cpu'' then map_option (\<lambda>c. PStr (py_str c)) (rs ''cpu'')
                        else if k = ''memory'' then rs ''memory'' else None)\<rparr>"
  by (auto simp: build_resource_requirements_def Let_def fun_eq_iff split: option.splits)

text \<open>The drift check on the state the builder has just written: it passes when the
  spec has a \<^verbatim>\<open>cpu\<close> key, and fails when it has none, since \<^verbatim>\<open>str(None)\<close> is then
  compared with an absent live cpu.\<close>

lemma is_patched_after_write:
  "rs ''cpu'' \<noteq> None \<Longrightarrow>
     is_patched (c\<lparr>resources := Some (build_resource_requirements rs)\<rparr>) rs = Inr True"
  by (auto simp: build_resource_requirements_eq is_patched_def Let_def py_get_def or_empty_def
      py_eq_refl split: option.splits)

lemma is_patched_without_cpu:
  "rs ''cpu'' = None \<Longrightarrow>
     is_patched (c\<lparr>resources := Some (build_resource_requirements rs)\<rparr>) rs = Inr False"
  by (auto simp: build_resource_requirements_eq is_patched_def Let_def py_get_def or_empty_def
      split: option.splits)

section \<open>The loop over the containers\<close>

text \<open>The loop raises nothing but the \<^verbatim>\<open>AttributeError\<close> of the drift check; it raises
  exactly when a managed container has no \<^verbatim>\<open>resources\<close> object; otherwise it maps
  \<open>mutated\<close> over the containers and sets the flag when one of them drifts.\<close>

lemma patch_containers_error:
  "patch_containers ru cs np = Inl e \<Longrightarrow> e = AttributeError"
  by (induction cs arbitrary: np)
     (auto simp: is_patched_Inl split: option.splits sum.splits bool.splits prod.splits)

lemma patch_containers_Inr:
  "patch_containers ru cs np = Inr (cs', np') \<Longrightarrow>
     cs' = map (mutated ru) cs \<and> np' = (np \<or> list_ex (drifts ru) cs)"
  by (induction cs arbitrary: np cs' np')
     (auto simp: mutated_def drifts_def split: option.splits sum.splits bool.splits prod.splits)

lemma patch_containers_Inl:
  "(\<exists>e. patch_containers ru cs np = Inl e) \<longleftrightarrow> list_ex (lacks_resources ru) cs"
proof (induction cs arbitrary: np)
  case Nil
  show ?case by simp
next
  case (Cons c cs)
  show ?case
  proof (cases "ru (name c)")
    case None
    then show ?thesis
      using Cons.IH [of np] by (auto simp: lacks_resources_def split: sum.splits prod.splits)
  next
    case (Some rs)
    show ?thesis
    proof (cases "resources c")
      case None
      then have "is_patched c rs = Inl AttributeError" by (simp add: is_patched_Inl)
      with \<open>ru (name c) = Some rs\<close> None show ?thesis by (auto simp: lacks_resources_def)
    next
      case (Some rr)
      then consider "is_patched c rs = Inr True" | "is_patched c rs = Inr False"
        using is_patched_cases [of c rs] by auto
      then show ?thesis
      proof cases
        case 1
        with \<open>ru (name c) = Some rs\<close> Some show ?thesis
          using Cons.IH [of np] by (auto simp: lacks_resources_def split: sum.splits prod.splits)
      next
        case 2
        with \<open>ru (name c) = Some rs\<close> Some show ?thesis
          using Cons.IH [of True] by (auto simp: lacks_resources_def split: sum.splits prod.splits)
      qed
    qed
  qed
qed

lemma patch_containers_completes:
  assumes "\<not> list_ex (lacks_resources ru) cs"
  shows "patch_containers ru cs np = Inr (map (mutated ru) cs, np \<or> list_ex (drifts ru) cs)"
proof (cases "patch_containers ru cs np")
  case (Inl e)
  with assms show ?thesis using patch_containers_Inl [of ru cs np] by auto
next
  case (Inr r)
  then show ?thesis using patch_containers_Inr [of ru cs np "fst r" "snd r"] by (cases r) auto
qed

lemma patch_containers_clean:
  "(\<forall>c\<in>set cs. \<forall>rs. ru (name c) = Some rs \<longrightarrow> is_patched c rs = Inr True) \<Longrightarrow>
     patch_containers ru cs np = Inr (cs, np)"
  by (induction cs) (auto split: option.splits)

lemma mutated_name: "name (mutated ru c) = name c"
  by (simp add: mutated_def split: option.splits)

section \<open>The trace of a reconcile\<close>

lemma api_get_ok:
  "get_ok p w ns s \<Longrightarrow>
     api_get (statefulset_name p) ns w = (Inr s, w\<lparr>calls := calls w @ [Get (statefulset_name p) ns]\<rparr>)"
  by (simp add: get_ok_def api_get_def)

lemma api_patch_calls:
  "calls (snd (api_patch n ns obj w)) = calls w @ [Patch n ns obj]"
  by (auto simp: api_patch_def Let_def split: option.splits)

lemma patch_statefulset_raised:
  assumes "get_ok p w ns s"
    and "patch_containers (resource_updates p) (containers s) False = Inl e"
  shows "patch_statefulset p w =
     (Some AttributeError, w\<lparr>calls := calls w @ [Get (statefulset_name p) ns]\<rparr>)"
proof -
  have e: "e = AttributeError" using assms(2) by (rule patch_containers_error)
  show ?thesis
    using assms api_get_ok [OF assms(1)]
    by (simp add: patch_statefulset_def patch_statefulset_try_def get_ok_def e)
qed

lemma patch_statefulset_completed:
  assumes "get_ok p w ns s"
    and "patch_containers (resource_updates p) (containers s) False = Inr (cs', np)"
  shows "new_calls w (snd (patch_statefulset p w)) =
     Get (statefulset_name p) ns #
       (if np then [Patch (statefulset_name p) ns (s\<lparr>containers := cs'\<rparr>)] else [])"
proof (cases np)
  case False
  then show ?thesis
    using assms api_get_ok [OF assms(1)]
    by (simp add: patch_statefulset_def patch_statefulset_try_def get_ok_def log_def new_calls_def)
next
  case True
  let ?w1 = "w\<lparr>calls := calls w @ [Get (statefulset_name p) ns]\<rparr>"
  let ?obj = "s\<lparr>containers := cs'\<rparr>"
  obtain r w2 where r: "api_patch (statefulset_name p) ns ?obj ?w1 = (r, w2)"
    by (cases "api_patch (statefulset_name p) ns ?obj ?w1") auto
  have c2: "calls w2 = calls w @ [Get (statefulset_name p) ns, Patch (statefulset_name p) ns ?obj]"
    using api_patch_calls [of "statefulset_name p" ns ?obj ?w1] r by simp
  have "calls (snd (patch_statefulset p w)) = calls w2"
    using assms True api_get_ok [OF assms(1)] r
    by (cases r) (auto simp: patch_statefulset_def patch_statefulset_try_def get_ok_def log_def)
  with c2 True show ?thesis by (simp add: new_calls_def)
qed

lemma patch_statefulset_patches:
  assumes "get_ok p w ns s"
    and "obj \<in> set (patches_of (new_calls w (snd (patch_statefulset p w))))"
  shows "obj = s\<lparr>containers := map (mutated (resource_updates p)) (containers s)\<rparr>"
proof (cases "patch_containers (resource_updates p) (containers s) False")
  case (Inl e)
  with assms show ?thesis
    by (simp add: patch_statefulset_raised [OF assms(1) Inl] new_calls_def)
next
  case (Inr r)
  obtain cs' np where r: "r = (cs', np)" by (cases r) auto
  from Inr r have pc: "patch_containers (resource_updates p) (containers s) False = Inr (cs', np)"
    by simp
  from patch_containers_Inr [OF pc]
  have cs': "cs' = map (mutated (resource_updates p)) (containers s)"
    by simp
  from assms(2) patch_statefulset_completed [OF assms(1) pc] have "obj = s\<lparr>containers := cs'\<rparr>"
    by (auto split: if_splits)
  with cs' show ?thesis by simp
qed

lemma patch_statefulset_returns:
  assumes "get_ok p w ns s" and "patch_statefulset p w = (None, w')"
  shows "\<not> list_ex (lacks_resources (resource_updates p)) (containers s)
     \<and> get_ok p w' ns
         (if list_ex (drifts (resource_updates p)) (containers s)
          then s\<lparr>containers := map (mutated (resource_updates p)) (containers s)\<rparr> else s)"
proof (cases "list_ex (lacks_resources (resource_updates p)) (containers s)")
  case True
  then obtain e where "patch_containers (resource_updates p) (containers s) False = Inl e"
    using patch_containers_Inl [of "resource_updates p" "containers s" False] by blast
  from patch_statefulset_raised [OF assms(1) this] assms(2) show ?thesis by simp
next
  case False
  note pc = patch_containers_completes [OF False, of False]
  show ?thesis
    using assms False api_get_ok [OF assms(1)] pc
    by (auto simp: patch_statefulset_def patch_statefulset_try_def get_ok_def log_def
        api_patch_def Let_def split: option.splits if_splits prod.splits)
qed

section \<open>Idempotence of reconcile\<close>

text \<open>
  When the spec of every managed container of the live object has a \<^verbatim>\<open>cpu\<close> key, a
  reconcile that returned normally is followed by a reconcile that issues the GET only.
  Here the object served after a PATCH is the one the PATCH submitted.
\<close>

lemma reconcile_second_call_noop:
  assumes ok: "get_ok p w ns s"
    and cpu: "\<forall>c\<in>set (containers s). \<forall>rs. resource_updates p (name c) = Some rs \<longrightarrow> rs ''cpu'' \<noteq> None"
    and first: "patch_statefulset p w = (None, w')"
  shows "new_calls w' (snd (patch_statefulset p w')) = [Get (statefulset_name p) ns]"
proof -
  let ?ru = "resource_updates p"
  let ?s' = "if list_ex (drifts ?ru) (containers s)
       then s\<lparr>containers := map (mutated ?ru) (containers s)\<rparr> else s"
  from patch_statefulset_returns [OF ok first]
  have res: "\<not> list_ex (lacks_resources ?ru) (containers s)" and ok': "get_ok p w' ns ?s'"
    by simp_all
  have settled: "is_patched (mutated ?ru c) rs = Inr True"
    if c: "c \<in> set (containers s)" and rs: "?ru (name c) = Some rs" for c rs
  proof (cases "is_patched c rs = Inr False")
    case True
    with rs have "mutated ?ru c = c\<lparr>resources := Some (build_resource_requirements rs)\<rparr>"
      by (simp add: mutated_def)
    moreover from cpu c rs have "rs ''cpu'' \<noteq> None" by blast
    ultimately show ?thesis by (simp add: is_patched_after_write)
  next
    case False
    from res c rs have "resources c \<noteq> None"
      by (auto simp: list_ex_iff lacks_resources_def)
    with False is_patched_cases [of c rs] have "is_patched c rs = Inr True" by blast
    with rs show ?thesis by (simp add: mutated_def)
  qed
  have same: "mutated ?ru c = c"
    if "c \<in> set (containers s)" and "\<not> list_ex (drifts ?ru) (containers s)" for c
    using that by (auto simp: list_ex_iff mutated_def drifts_def split: option.splits)
  have clean: "\<forall>c\<in>set (containers ?s'). \<forall>rs. ?ru (name c) = Some rs \<longrightarrow> is_patched c rs = Inr True"
  proof (cases "list_ex (drifts ?ru) (containers s)")
    case True
    then show ?thesis using settled by (auto simp: mutated_name)
  next
    case False
    then show ?thesis using settled same by (metis (full_types))
  qed
  from patch_statefulset_completed [OF ok' patch_containers_clean [OF clean]]
  show ?thesis by simp
qed

text \<open>
  C1 (idempotence) fails on the code. With the desired mapping
  \<^verbatim>\<open>{"charm": {"memory": "1Gi"}}\<close> and a live container \<^verbatim>\<open>charm\<close> holding
  \<^verbatim>\<open>memory = "512Mi"\<close>, two reconciles in succession both return normally and each
  issues a PATCH with the same object: the drift check compares the live \<^verbatim>\<open>cpu\<close> with
  \<^verbatim>\<open>str(None)\<close>, the string \<^verbatim>\<open>"None"\<close>, which the state it has just written never holds.
\<close>

theorem memory_only_spec_patched_twice:
  "fst memory_only_first = None \<and> fst memory_only_second = None
   \<and> patches_of (new_calls (app_cluster memory_only_live) (snd memory_only_first))
       = [memory_only_patched]
   \<and> patches_of (new_calls (snd memory_only_first) (snd memory_only_second))
       = [memory_only_patched]
   \<and> patches_of (calls (snd memory_only_second)) = [memory_only_patched, memory_only_patched]"
  by (simp add: model_defs example_defs memory_only_patcher_def memory_only_live_def memory_only_patched_def
      memory_only_first_def memory_only_second_def)

section \<open>Drift detection\<close>

text \<open>
  C2 as stated fails: a key absent from the desired spec is compared all the same. With the
  desired spec \<^verbatim>\<open>{"cpu": 1}\<close>, a live container holding \<^verbatim>\<open>cpu = "1"\<close> passes the drift
  check, and the same container holding \<^verbatim>\<open>memory = "1Gi"\<close> as well does not: the live
  value of the unspecified key \<^verbatim>\<open>memory\<close> alone marks it dirty.
\<close>

theorem unspecified_memory_is_checked:
  "cpu_one_spec ''memory'' = None
   \<and> is_patched cpu_one_live cpu_one_spec = Inr True
   \<and> is_patched cpu_one_memory_live cpu_one_spec = Inr False"
  by (simp add: model_defs example_defs cpu_one_spec_def cpu_one_live_def cpu_one_memory_live_def)

text \<open>
  C2, amended: when \<^verbatim>\<open>memory\<close> is absent from the desired spec and \<^verbatim>\<open>cpu\<close> is given, a
  container with a \<^verbatim>\<open>resources\<close> object passes the drift check exactly when neither its
  live limits nor its live requests hold a memory value (the key is absent, or holds
  \<^verbatim>\<open>None\<close>) and both hold the string form of the desired cpu.
\<close>

theorem unspecified_memory_compared_to_absence:
  assumes "rs ''memory'' = None" and "rs ''cpu'' = Some v" and "resources c = Some rr"
  shows "is_patched c rs = Inr True \<longleftrightarrow>
       or_empty (limits rr) ''memory'' \<in> {None, Some PNone}
     \<and> or_empty (requests rr) ''memory'' \<in> {None, Some PNone}
     \<and> or_empty (limits rr) ''cpu'' = Some (PStr (py_str v))
     \<and> or_empty (requests rr) ''cpu'' = Some (PStr (py_str v))"
  using assms
  by (auto simp: is_patched_def Let_def py_get_def py_eq_PNone py_eq_PStr split: option.splits)

text \<open>C2, amended, at the desired spec \<^verbatim>\<open>{"cpu": 2}\<close> and a live container holding
  \<^verbatim>\<open>cpu = "2"\<close> and no memory: the container passes.\<close>

theorem unspecified_memory_compared_to_absence_witness:
  "is_patched (live_container ''charm'' [''cpu'' \<mapsto> PStr ''2'']) [''cpu'' \<mapsto> PInt 2] = Inr True"
proof -
  have "[''cpu'' \<mapsto> PInt 2] ''memory'' = None"
    and "[''cpu'' \<mapsto> PInt 2] ''cpu'' = Some (PInt 2)"
    and "resources (live_container ''charm'' [''cpu'' \<mapsto> PStr ''2''])
           = Some \<lparr>limits = Some [''cpu'' \<mapsto> PStr ''2''], requests = Some [''cpu'' \<mapsto> PStr ''2'']\<rparr>"
    by (simp_all add: live_container_def)
  from unspecified_memory_compared_to_absence
         [of "[''cpu'' \<mapsto> PInt 2]" "PInt 2" "live_container ''charm'' [''cpu'' \<mapsto> PStr ''2'']"
             "\<lparr>limits = Some [''cpu'' \<mapsto> PStr ''2''], requests = Some [''cpu'' \<mapsto> PStr ''2'']\<rparr>",
          OF this]
  show ?thesis
    by (simp add: or_empty_def str_int_def str_nat.simps digit_char_def)
qed

section \<open>When a PATCH is issued\<close>

text \<open>
  C3 as stated fails: with both containers managed, \<^verbatim>\<open>a\<close> holding no limits and no
  requests and \<^verbatim>\<open>b\<close> holding no \<^verbatim>\<open>resources\<close> object, container \<^verbatim>\<open>a\<close> fails the
  drift check, and yet the reconcile issues the GET only: the drift check of \<^verbatim>\<open>b\<close>
  raises \<^verbatim>\<open>AttributeError\<close> before the PATCH.
\<close>

theorem patch_skipped_despite_drift:
  "drifts (resource_updates raising_patcher) (unset_container ''a'')
   \<and> fst (patch_statefulset raising_patcher (app_cluster raising_live)) = Some AttributeError
   \<and> calls (snd (patch_statefulset raising_patcher (app_cluster raising_live)))
       = [Get ''app'' ''model'']"
  by (simp add: model_defs example_defs raising_patcher_def raising_live_def)

text \<open>
  C3, amended: when the GET is served and every managed container of the fetched object
  has a \<^verbatim>\<open>resources\<close> object, the reconcile issues the GET, followed by exactly one PATCH
  carrying the fetched object with every drifting container rewritten if some managed
  container fails the drift check, and by nothing otherwise.
\<close>

theorem patch_iff_drift:
  assumes "get_ok p w ns s"
    and "\<not> list_ex (lacks_resources (resource_updates p)) (containers s)"
  shows "new_calls w (snd (patch_statefulset p w)) =
     Get (statefulset_name p) ns #
       (if list_ex (drifts (resource_updates p)) (containers s)
        then [Patch (statefulset_name p) ns
                (s\<lparr>containers := map (mutated (resource_updates p)) (containers s)\<rparr>)]
        else [])"
  using patch_statefulset_completed [OF assms(1) patch_containers_completes [OF assms(2)]]
  by simp

text \<open>C3, amended, at the scenario of the specification: \<^verbatim>\<open>charm\<close> drifts in memory,
  \<^verbatim>\<open>app\<close> matches.\<close>

theorem patch_iff_drift_witness:
  "new_calls (app_cluster scenario_live)
       (snd (patch_statefulset scenario_patcher (app_cluster scenario_live)))
     = [Get ''app'' ''model'', Patch ''app'' ''model'' scenario_patched]"
proof -
  let ?s = "\<lparr>metadata_name = ''app'', containers = scenario_live\<rparr>"
  have ok: "get_ok scenario_patcher (app_cluster scenario_live) ''model'' ?s"
    by (simp add: get_ok_def app_cluster_def cluster_with_def scenario_patcher_def app_patcher_def)
  have res: "\<not> list_ex (lacks_resources (resource_updates scenario_patcher)) (containers ?s)"
    by (simp add: lacks_resources_def example_defs scenario_patcher_def scenario_live_def scenario_patched_def)
  have "new_calls (app_cluster scenario_live)
          (snd (patch_statefulset scenario_patcher (app_cluster scenario_live))) =
     Get (statefulset_name scenario_patcher) ''model'' #
       (if list_ex (drifts (resource_updates scenario_patcher)) (containers ?s)
        then [Patch (statefulset_name scenario_patcher) ''model''
                (?s\<lparr>containers := map (mutated (resource_updates scenario_patcher)) (containers ?s)\<rparr>)]
        else [])"
    by (rule patch_iff_drift [OF ok res])
  also have "\<dots> = [Get ''app'' ''model'', Patch ''app'' ''model'' scenario_patched]"
    by (simp add: model_defs example_defs scenario_patcher_def scenario_live_def scenario_patched_def)
  finally show ?thesis .
qed

section \<open>What a PATCH submits\<close>

text \<open>
  C4 (partial targeting): in an object submitted by a PATCH of the reconcile, the
  containers are those of the fetched object, in order and under their names; a container
  whose name is not a key of the desired mapping is unchanged, and so is a managed
  container that passes the drift check.
\<close>

theorem partial_targeting:
  assumes "get_ok p w ns s"
    and "obj \<in> set (patches_of (new_calls w (snd (patch_statefulset p w))))"
  shows "metadata_name obj = metadata_name s
     \<and> length (containers obj) = length (containers s)
     \<and> (\<forall>i < length (containers s).
          name (containers obj ! i) = name (containers s ! i)
          \<and> (name (containers s ! i) \<notin> dom (resource_updates p)
               \<longrightarrow> containers obj ! i = containers s ! i)
          \<and> (\<forall>rs. resource_updates p (name (containers s ! i)) = Some rs
                    \<and> is_patched (containers s ! i) rs = Inr True
               \<longrightarrow> containers obj ! i = containers s ! i))"
proof -
  note obj = patch_statefulset_patches [OF assms]
  have "\<forall>i < length (containers s).
          name (containers obj ! i) = name (containers s ! i)
          \<and> (name (containers s ! i) \<notin> dom (resource_updates p)
               \<longrightarrow> containers obj ! i = containers s ! i)
          \<and> (\<forall>rs. resource_updates p (name (containers s ! i)) = Some rs
                    \<and> is_patched (containers s ! i) rs = Inr True
               \<longrightarrow> containers obj ! i = containers s ! i)"
    using obj by (auto simp: mutated_name) (auto simp: mutated_def split: option.splits)
  moreover have "metadata_name obj = metadata_name s"
    and "length (containers obj) = length (containers s)"
    using obj by simp_all
  ultimately show ?thesis by blast
qed

text \<open>C4 at desired resources for \<^verbatim>\<open>A\<close> only and a live object with \<^verbatim>\<open>A\<close> and \<^verbatim>\<open>B\<close>:
  \<^verbatim>\<open>B\<close> is submitted as it was fetched.\<close>

theorem partial_targeting_witness:
  "ab_patched \<in> set (patches_of (new_calls (app_cluster ab_live)
                        (snd (patch_statefulset ab_patcher (app_cluster ab_live)))))
   \<and> name (ab_live ! 1) \<notin> dom (resource_updates ab_patcher)
   \<and> containers ab_patched ! 1 = ab_live ! 1"
proof -
  let ?s = "\<lparr>metadata_name = ''app'', containers = ab_live\<rparr>"
  have ok: "get_ok ab_patcher (app_cluster ab_live) ''model'' ?s"
    by (simp add: get_ok_def app_cluster_def cluster_with_def ab_patcher_def app_patcher_def)
  have hyp: "ab_patched \<in> set (patches_of (new_calls (app_cluster ab_live)
                        (snd (patch_statefulset ab_patcher (app_cluster ab_live)))))"
    by (simp add: model_defs example_defs ab_spec_def ab_patcher_def ab_live_def ab_patched_def)
  have unmanaged: "name (containers ?s ! 1) \<notin> dom (resource_updates ab_patcher)"
    by (simp add: example_defs ab_spec_def ab_patcher_def ab_live_def ab_patched_def)
  have len: "1 < length (containers ?s)"
    by (simp add: ab_live_def)
  note frame = partial_targeting [OF ok hyp, THEN conjunct2, THEN conjunct2, rule_format, OF len]
  from frame [THEN conjunct2, THEN conjunct1, rule_format, OF unmanaged]
  have "containers ab_patched ! 1 = containers ?s ! 1" .
  with hyp unmanaged show ?thesis by simp
qed

text \<open>
  C6 (write invariant): in an object submitted by a PATCH of the reconcile, every container
  that the reconcile wrote (a managed container that failed the drift check) has its
  \<^verbatim>\<open>resources\<close> replaced by limits and requests that are one and the same map: it holds
  the desired memory under \<^verbatim>\<open>memory\<close> when the spec has it, the string form of the
  desired cpu under \<^verbatim>\<open>cpu\<close> when the spec has it, and no other key. Every other
  container is submitted as it was fetched.
\<close>

theorem write_invariant:
  assumes "get_ok p w ns s"
    and "obj \<in> set (patches_of (new_calls w (snd (patch_statefulset p w))))"
  shows "length (containers obj) = length (containers s)
     \<and> (\<forall>i < length (containers s). \<forall>rs.
          resource_updates p (name (containers s ! i)) = Some rs
          \<and> is_patched (containers s ! i) rs = Inr False
          \<longrightarrow> (\<exists>m. containers obj ! i =
                      (containers s ! i)\<lparr>resources := Some \<lparr>limits = Some m, requests = Some m\<rparr>\<rparr>
                 \<and> m ''memory'' = rs ''memory''
                 \<and> m ''cpu'' = map_option (\<lambda>c. PStr (py_str c)) (rs ''cpu'')
                 \<and> (\<forall>k. k \<noteq> ''memory'' \<and> k \<noteq> ''cpu'' \<longrightarrow> m k = None)))
     \<and> (\<forall>i < length (containers s).
          \<not> drifts (resource_updates p) (containers s ! i)
          \<longrightarrow> containers obj ! i = containers s ! i)"
proof -
  note obj = patch_statefulset_patches [OF assms]
  have "\<forall>i < length (containers s).
          \<not> drifts (resource_updates p) (containers s ! i)
          \<longrightarrow> containers obj ! i = containers s ! i"
    using obj by (auto simp: mutated_def drifts_def split: option.splits)
  moreover
  have "\<forall>i < length (containers s). \<forall>rs.
          resource_updates p (name (containers s ! i)) = Some rs
          \<and> is_patched (containers s ! i) rs = Inr False
          \<longrightarrow> (\<exists>m. containers obj ! i =
                      (containers s ! i)\<lparr>resources := Some \<lparr>limits = Some m, requests = Some m\<rparr>\<rparr>
                 \<and> m ''memory'' = rs ''memory''
                 \<and> m ''cpu'' = map_option (\<lambda>c. PStr (py_str c)) (rs ''cpu'')
                 \<and> (\<forall>k. k \<noteq> ''memory'' \<and> k \<noteq> ''cpu'' \<longrightarrow> m k = None))"
    using obj by (auto simp: mutated_def build_resource_requirements_eq)
  moreover have "length (containers obj) = length (containers s)"
    using obj by simp
  ultimately show ?thesis by blast
qed

text \<open>C6 at a live container \<^verbatim>\<open>A\<close> that holds \<^verbatim>\<open>ephemeral-storage\<close> besides memory and
  cpu: the written state holds memory and cpu only, the same in limits and requests.\<close>

theorem write_invariant_witness:
  "ab_patched \<in> set (patches_of (new_calls (app_cluster ab_live)
                        (snd (patch_statefulset ab_patcher (app_cluster ab_live)))))
   \<and> is_patched (ab_live ! 0) ab_spec = Inr False
   \<and> containers ab_patched ! 0 =
       live_container ''A'' [''memory'' \<mapsto> PStr ''1Gi'', ''cpu'' \<mapsto> PStr ''1'']"
proof -
  let ?s = "\<lparr>metadata_name = ''app'', containers = ab_live\<rparr>"
  have ok: "get_ok ab_patcher (app_cluster ab_live) ''model'' ?s"
    by (simp add: get_ok_def app_cluster_def cluster_with_def ab_patcher_def app_patcher_def)
  have hyp: "ab_patched \<in> set (patches_of (new_calls (app_cluster ab_live)
                        (snd (patch_statefulset ab_patcher (app_cluster ab_live)))))"
    by (simp add: model_defs example_defs ab_spec_def ab_patcher_def ab_live_def ab_patched_def)
  have managed: "resource_updates ab_patcher (name (containers ?s ! 0)) = Some ab_spec"
    by (simp add: ab_patcher_def app_patcher_def ab_live_def live_container_def)
  have drift: "is_patched (containers ?s ! 0) ab_spec = Inr False"
    by (simp add: model_defs example_defs ab_spec_def ab_patcher_def ab_live_def ab_patched_def)
  have len: "0 < length (containers ?s)"
    by (simp add: ab_live_def)
  from write_invariant
         [OF ok hyp, THEN conjunct2, THEN conjunct1, rule_format, OF len, OF conjI [OF managed drift]]
  have "\<exists>m. containers ab_patched ! 0 =
        (containers ?s ! 0)\<lparr>resources := Some \<lparr>limits = Some m, requests = Some m\<rparr>\<rparr>
      \<and> m ''memory'' = ab_spec ''memory''
      \<and> m ''cpu'' = map_option (\<lambda>c. PStr (py_str c)) (ab_spec ''cpu'')
      \<and> (\<forall>k. k \<noteq> ''memory'' \<and> k \<noteq> ''cpu'' \<longrightarrow> m k = None)" .
  then obtain m where w: "containers ab_patched ! 0 =
        (containers ?s ! 0)\<lparr>resources := Some \<lparr>limits = Some m, requests = Some m\<rparr>\<rparr>"
    and mem: "m ''memory'' = ab_spec ''memory''"
    and cpu: "m ''cpu'' = map_option (\<lambda>c. PStr (py_str c)) (ab_spec ''cpu'')"
    and other: "\<forall>k. k \<noteq> ''memory'' \<and> k \<noteq> ''cpu'' \<longrightarrow> m k = None"
    by blast
  from mem have mm: "m ''memory'' = Some (PStr ''1Gi'')" by (simp add: ab_spec_def)
  from cpu have cc: "m ''cpu'' = Some (PStr ''1'')"
    by (simp add: ab_spec_def str_int_def str_nat.simps digit_char_def)
  have "m k = [''memory'' \<mapsto> PStr ''1Gi'', ''cpu'' \<mapsto> PStr ''1''] k" for k
    using mm cc other by simp
  then have m: "m = [''memory'' \<mapsto> PStr ''1Gi'', ''cpu'' \<mapsto> PStr ''1'']" ..
  from w have "containers ab_patched ! 0 =
      live_container ''A'' [''memory'' \<mapsto> PStr ''1Gi'', ''cpu'' \<mapsto> PStr ''1'']"
    unfolding m by (simp add: ab_live_def live_container_def)
  moreover from drift have "is_patched (ab_live ! 0) ab_spec = Inr False" by simp
  ultimately show ?thesis using hyp by (intro conjI)
qed

text \<open>
  C9 (empty spec): in an object submitted by a PATCH of the reconcile, a container that
  the reconcile wrote and whose desired spec has neither the \<^verbatim>\<open>memory\<close> nor the
  \<^verbatim>\<open>cpu\<close> key has \<^verbatim>\<open>limits = {}\<close> and \<^verbatim>\<open>requests = {}\<close>.
\<close>

theorem empty_spec_written_empty:
  assumes "get_ok p w ns s"
    and "obj \<in> set (patches_of (new_calls w (snd (patch_statefulset p w))))"
  shows "length (containers obj) = length (containers s)
     \<and> (\<forall>i < length (containers s). \<forall>rs.
          resource_updates p (name (containers s ! i)) = Some rs
          \<and> rs ''memory'' = None \<and> rs ''cpu'' = None
          \<and> is_patched (containers s ! i) rs = Inr False
          \<longrightarrow> containers obj ! i =
                 (containers s ! i)
                   \<lparr>resources := Some \<lparr>limits = Some Map.empty, requests = Some Map.empty\<rparr>\<rparr>)"
proof -
  note obj = patch_statefulset_patches [OF assms]
  have "\<forall>i < length (containers s). \<forall>rs.
          resource_updates p (name (containers s ! i)) = Some rs
          \<and> rs ''memory'' = None \<and> rs ''cpu'' = None
          \<and> is_patched (containers s ! i) rs = Inr False
          \<longrightarrow> containers obj ! i =
                 (containers s ! i)
                   \<lparr>resources := Some \<lparr>limits = Some Map.empty, requests = Some Map.empty\<rparr>\<rparr>"
    using obj by (auto simp: mutated_def build_resource_requirements_def Let_def)
  moreover have "length (containers obj) = length (containers s)"
    using obj by simp
  ultimately show ?thesis by blast
qed

text \<open>C9 at the desired mapping \<^verbatim>\<open>{"charm": {}}\<close> and a live container \<^verbatim>\<open>charm\<close>
  holding \<^verbatim>\<open>memory = "1Gi"\<close>.\<close>

theorem empty_spec_written_empty_witness:
  "empty_spec_patched \<in> set (patches_of (new_calls (app_cluster empty_spec_live)
        (snd (patch_statefulset empty_spec_patcher (app_cluster empty_spec_live)))))
   \<and> containers empty_spec_patched ! 0 =
       \<lparr>name = ''charm'',
        resources = Some \<lparr>limits = Some Map.empty, requests = Some Map.empty\<rparr>\<rparr>"
proof -
  let ?s = "\<lparr>metadata_name = ''app'', containers = empty_spec_live\<rparr>"
  have ok: "get_ok empty_spec_patcher (app_cluster empty_spec_live) ''model'' ?s"
    by (simp add: get_ok_def app_cluster_def cluster_with_def empty_spec_patcher_def
        app_patcher_def)
  have hyp: "empty_spec_patched \<in> set (patches_of (new_calls (app_cluster empty_spec_live)
        (snd (patch_statefulset empty_spec_patcher (app_cluster empty_spec_live)))))"
    by (simp add: model_defs example_defs empty_spec_patcher_def empty_spec_live_def empty_spec_patched_def)
  have managed: "resource_updates empty_spec_patcher (name (containers ?s ! 0)) = Some Map.empty"
    by (simp add: example_defs empty_spec_patcher_def empty_spec_live_def empty_spec_patched_def)
  have drift: "is_patched (containers ?s ! 0) Map.empty = Inr False"
    by (simp add: model_defs example_defs empty_spec_patcher_def empty_spec_live_def empty_spec_patched_def)
  have len: "0 < length (containers ?s)"
    by (simp add: empty_spec_live_def)
  have spec: "Map.empty ''memory'' = (None :: pyval option) \<and> Map.empty ''cpu'' = (None :: pyval option)"
    by simp
  from empty_spec_written_empty
         [OF ok hyp, THEN conjunct2, rule_format, OF len, OF conjI [OF managed conjI [OF spec [THEN conjunct1] conjI [OF spec [THEN conjunct2] drift]]]]
  have "containers empty_spec_patched ! 0 =
      (containers ?s ! 0)\<lparr>resources := Some \<lparr>limits = Some Map.empty, requests = Some Map.empty\<rparr>\<rparr>" .
  with hyp show ?thesis by (simp add: empty_spec_live_def live_container_def)
qed

section \<open>CPU coercion\<close>

text \<open>
  C5 (cpu coercion): for a desired spec with a cpu value \<open>v\<close>, the state built has the
  string \<^verbatim>\<open>str(v)\<close> under \<^verbatim>\<open>cpu\<close> in limits and in requests, and the desired memory,
  as it is, under \<^verbatim>\<open>memory\<close>; a container with a \<^verbatim>\<open>resources\<close> object passes the
  drift check exactly when its live limits and requests both hold that string under
  \<^verbatim>\<open>cpu\<close> and both equal the desired memory. For an integer \<open>v\<close> the string is the
  decimal numeral of \<open>v\<close>, for a float it is the string \<^verbatim>\<open>str\<close> returns for the float, and
  a string is left as it is.
\<close>

theorem cpu_coercion:
  assumes "rs ''cpu'' = Some v" and "resources c = Some rr"
  shows "(\<exists>m. build_resource_requirements rs = \<lparr>limits = Some m, requests = Some m\<rparr>
            \<and> m ''cpu'' = Some (PStr (py_str v)) \<and> m ''memory'' = rs ''memory'')
     \<and> (is_patched c rs = Inr True \<longleftrightarrow>
            or_empty (limits rr) ''cpu'' = Some (PStr (py_str v))
          \<and> or_empty (requests rr) ''cpu'' = Some (PStr (py_str v))
          \<and> py_eq (py_get (or_empty (limits rr)) ''memory'') (py_get rs ''memory'')
          \<and> py_eq (py_get (or_empty (requests rr)) ''memory'') (py_get rs ''memory''))
     \<and> (\<forall>i. v = PInt i \<longrightarrow> is_decimal_of (py_str v) i)
     \<and> (\<forall>m e s. v = PFloat m e s \<longrightarrow> py_str v = s)
     \<and> (\<forall>s. v = PStr s \<longrightarrow> py_str v = s)"
proof -
  have "\<exists>m. build_resource_requirements rs = \<lparr>limits = Some m, requests = Some m\<rparr>
            \<and> m ''cpu'' = Some (PStr (py_str v)) \<and> m ''memory'' = rs ''memory''"
    using assms(1) by (simp add: build_resource_requirements_eq)
  moreover have "is_patched c rs = Inr True \<longleftrightarrow>
            or_empty (limits rr) ''cpu'' = Some (PStr (py_str v))
          \<and> or_empty (requests rr) ''cpu'' = Some (PStr (py_str v))
          \<and> py_eq (py_get (or_empty (limits rr)) ''memory'') (py_get rs ''memory'')
          \<and> py_eq (py_get (or_empty (requests rr)) ''memory'') (py_get rs ''memory'')"
    using assms
    by (auto simp: is_patched_def Let_def py_get_def py_eq_PStr split: option.splits)
  moreover have "\<forall>i. v = PInt i \<longrightarrow> is_decimal_of (py_str v) i"
    by (simp add: str_int_decimal)
  moreover have "\<forall>m e s. v = PFloat m e s \<longrightarrow> py_str v = s"
    and "\<forall>s. v = PStr s \<longrightarrow> py_str v = s"
    by simp_all
  ultimately show ?thesis by blast
qed

text \<open>C5 at the desired specs \<^verbatim>\<open>{"cpu": 16}\<close>, \<^verbatim>\<open>{"cpu": 1}\<close>,
  \<^verbatim>\<open>{"memory": "1Gi", "cpu": 0.5}\<close> and \<^verbatim>\<open>{"cpu": 1.0}\<close>: the strings written are
  \<^verbatim>\<open>"16"\<close>, \<^verbatim>\<open>"1"\<close> and \<^verbatim>\<open>"0.5"\<close>, memory is written as it is, a live cpu \<^verbatim>\<open>"16"\<close>
  matches the integer 16 and a live cpu \<^verbatim>\<open>"1"\<close> matches the integer 1, but not the float
  \<^verbatim>\<open>1.0\<close>, whose string is \<^verbatim>\<open>"1.0"\<close>.\<close>

theorem cpu_coercion_witness:
  "is_decimal_of (py_str (PInt 16)) 16
   \<and> py_str (PInt 16) = ''16''
   \<and> or_empty (limits (build_resource_requirements cpu_sixteen_spec)) ''cpu'' = Some (PStr ''16'')
   \<and> or_empty (requests (build_resource_requirements cpu_sixteen_spec)) ''cpu'' = Some (PStr ''16'')
   \<and> is_patched (live_container ''charm'' [''cpu'' \<mapsto> PStr ''16'']) cpu_sixteen_spec = Inr True
   \<and> is_patched cpu_one_live cpu_one_spec = Inr True
   \<and> or_empty (limits (build_resource_requirements cpu_half_spec)) ''cpu'' = Some (PStr ''0.5'')
   \<and> or_empty (limits (build_resource_requirements cpu_half_spec)) ''memory'' = Some (PStr ''1Gi'')
   \<and> is_patched cpu_one_live cpu_float_one_spec = Inr False"
proof -
  let ?c = "live_container ''charm'' [''cpu'' \<mapsto> PStr ''16'']"
  let ?rr = "\<lparr>limits = Some [''cpu'' \<mapsto> PStr ''16''], requests = Some [''cpu'' \<mapsto> PStr ''16'']\<rparr>"
  let ?one = "\<lparr>limits = Some [''cpu'' \<mapsto> PStr ''1''], requests = Some [''cpu'' \<mapsto> PStr ''1'']\<rparr>"
  have "cpu_sixteen_spec ''cpu'' = Some (PInt 16)" and "resources ?c = Some ?rr"
    by (simp_all add: cpu_sixteen_spec_def live_container_def)
  note coerced = cpu_coercion [of cpu_sixteen_spec "PInt 16" ?c ?rr, OF this]
  have sixteen: "str_int 16 = ''16''"
    by (simp add: str_int_def str_nat.simps digit_char_def)
  from coerced [THEN conjunct2, THEN conjunct2, THEN conjunct1, rule_format, OF refl]
  have dec: "is_decimal_of (py_str (PInt 16)) 16" .
  from coerced [THEN conjunct1] obtain m
    where "build_resource_requirements cpu_sixteen_spec = \<lparr>limits = Some m, requests = Some m\<rparr>"
      and "m ''cpu'' = Some (PStr (py_str (PInt 16)))"
    by blast
  then have written: "or_empty (limits (build_resource_requirements cpu_sixteen_spec)) ''cpu'' = Some (PStr ''16'')"
    "or_empty (requests (build_resource_requirements cpu_sixteen_spec)) ''cpu'' = Some (PStr ''16'')"
    by (simp_all add: or_empty_def sixteen)
  from coerced [THEN conjunct2, THEN conjunct1]
  have passes: "is_patched ?c cpu_sixteen_spec = Inr True"
    by (simp add: or_empty_def py_get_def sixteen cpu_sixteen_spec_def)
  have "cpu_one_spec ''cpu'' = Some (PInt 1)" and one_live: "resources cpu_one_live = Some ?one"
    by (simp_all add: cpu_one_spec_def cpu_one_live_def live_container_def)
  from cpu_coercion [of cpu_one_spec "PInt 1" cpu_one_live ?one, OF this, THEN conjunct2, THEN conjunct1]
  have one: "is_patched cpu_one_live cpu_one_spec = Inr True"
    by (simp add: or_empty_def py_get_def cpu_one_spec_def str_int_def str_nat.simps digit_char_def)
  have half_cpu: "cpu_half_spec ''cpu'' = Some (PFloat 1 (- 1) ''0.5'')"
    by (simp add: cpu_half_spec_def)
  from cpu_coercion [of cpu_half_spec "PFloat 1 (- 1) ''0.5''" cpu_one_live ?one,
      OF half_cpu one_live, THEN conjunct1]
  obtain h where "build_resource_requirements cpu_half_spec = \<lparr>limits = Some h, requests = Some h\<rparr>"
    and "h ''cpu'' = Some (PStr (py_str (PFloat 1 (- 1) ''0.5'')))"
    and "h ''memory'' = cpu_half_spec ''memory''"
    by blast
  then have half: "or_empty (limits (build_resource_requirements cpu_half_spec)) ''cpu'' = Some (PStr ''0.5'')"
    "or_empty (limits (build_resource_requirements cpu_half_spec)) ''memory'' = Some (PStr ''1Gi'')"
    by (simp_all add: or_empty_def cpu_half_spec_def)
  have float_cpu: "cpu_float_one_spec ''cpu'' = Some (PFloat 1 0 ''1.0'')"
    by (simp add: cpu_float_one_spec_def)
  from cpu_coercion [of cpu_float_one_spec "PFloat 1 0 ''1.0''" cpu_one_live ?one,
      OF float_cpu one_live, THEN conjunct2, THEN conjunct1]
  have "is_patched cpu_one_live cpu_float_one_spec \<noteq> Inr True"
    by (simp add: or_empty_def)
  moreover have "resources cpu_one_live \<noteq> None"
    using one_live by simp
  ultimately have float_one: "is_patched cpu_one_live cpu_float_one_spec = Inr False"
    using is_patched_cases [of cpu_one_live cpu_float_one_spec] by blast
  from dec sixteen written passes one half float_one show ?thesis by simp
qed

section \<open>Errors\<close>

text \<open>
  C7 (teardown): when the client is configured and the namespace file is read, teardown
  issues exactly one DELETE of the object; it returns normally when the DELETE succeeds
  and when it reports status 404, and raises the API error of any other status; it does
  not depend on the desired mapping.
\<close>

theorem teardown_errors:
  assumes "\<not> config_error w" and "namespace_file w = Some ns"
  shows "(fst (api_delete (statefulset_name p) ns w) = Some (ApiError 404)
            \<longrightarrow> fst (remove_statefulset p w) = None)
     \<and> (\<forall>code. code \<noteq> 404 \<and> fst (api_delete (statefulset_name p) ns w) = Some (ApiError code)
            \<longrightarrow> fst (remove_statefulset p w) = Some (ApiError code))
     \<and> (fst (api_delete (statefulset_name p) ns w) = None
            \<longrightarrow> fst (remove_statefulset p w) = None)
     \<and> new_calls w (snd (remove_statefulset p w)) = [Delete (statefulset_name p) ns]
     \<and> remove_statefulset (p\<lparr>resource_updates := ru\<rparr>) w = remove_statefulset p w"
  using assms
  by (auto simp: remove_statefulset_def api_delete_def Let_def new_calls_def log_def
      split: option.splits)

text \<open>C7 at a cluster without the object (status 404) and at a server that answers
  status 403.\<close>

theorem teardown_errors_witness:
  "remove_statefulset (app_patcher Map.empty) absent_cluster
     = (None, absent_cluster\<lparr>calls := [Delete ''app'' ''model'']\<rparr>)
   \<and> fst (remove_statefulset (app_patcher Map.empty) ((app_cluster [])\<lparr>delete_fault := Some 403\<rparr>))
     = Some (ApiError 403)"
proof -
  have a: "\<not> config_error absent_cluster" "namespace_file absent_cluster = Some ''model''"
    by (simp_all add: absent_cluster_def cluster_with_def)
  have b: "\<not> config_error ((app_cluster [])\<lparr>delete_fault := Some 403\<rparr>)"
    "namespace_file ((app_cluster [])\<lparr>delete_fault := Some 403\<rparr>) = Some ''model''"
    by (simp_all add: app_cluster_def cluster_with_def)
  have "fst (api_delete (statefulset_name (app_patcher Map.empty)) ''model''
               ((app_cluster [])\<lparr>delete_fault := Some 403\<rparr>)) = Some (ApiError 403)"
    by (simp add: api_delete_def app_cluster_def cluster_with_def)
  with teardown_errors [OF b, of "app_patcher Map.empty"]
  have "fst (remove_statefulset (app_patcher Map.empty) ((app_cluster [])\<lparr>delete_fault := Some 403\<rparr>))
     = Some (ApiError 403)"
    by simp
  moreover
  have "fst (api_delete (statefulset_name (app_patcher Map.empty)) ''model'' absent_cluster)
          = Some (ApiError 404)"
    by (simp add: api_delete_def absent_cluster_def cluster_with_def app_patcher_def)
  with teardown_errors [OF a, of "app_patcher Map.empty"]
  have "fst (remove_statefulset (app_patcher Map.empty) absent_cluster) = None"
    by simp
  then have "remove_statefulset (app_patcher Map.empty) absent_cluster
     = (None, absent_cluster\<lparr>calls := [Delete ''app'' ''model'']\<rparr>)"
    by (simp add: model_defs example_defs absent_cluster_def)
  ultimately show ?thesis by simp
qed

text \<open>
  C8 (reconcile): when the client cannot be configured the reconcile raises
  \<^verbatim>\<open>ConfigError\<close> after logging it, and calls nothing; when the GET fails, with status 404
  when the object is absent or with any other API error, the reconcile raises that error
  after logging it, and the GET is its only call.
\<close>

theorem reconcile_get_failure:
  "(config_error w \<longrightarrow>
       patch_statefulset p w = (Some ConfigError, log (Error_failed ConfigError) w))
   \<and> (\<not> config_error w \<and> namespace_file w = Some ns
        \<and> fst (api_get (statefulset_name p) ns w) = Inl e \<longrightarrow>
          fst (patch_statefulset p w) = Some e
        \<and> logs (snd (patch_statefulset p w)) = logs w @ [Error_failed e]
        \<and> new_calls w (snd (patch_statefulset p w)) = [Get (statefulset_name p) ns])
   \<and> (\<not> config_error w \<and> namespace_file w = Some ns \<and> get_fault w = None
        \<and> objects w (statefulset_name p, ns) = None \<longrightarrow>
          fst (api_get (statefulset_name p) ns w) = Inl (ApiError 404))"
  by (auto simp: patch_statefulset_def patch_statefulset_try_def api_get_def Let_def
      new_calls_def log_def split: option.splits)

text \<open>C8 at a client without configuration, at a cluster without the object, and at a
  server that answers status 500.\<close>

theorem reconcile_get_failure_witness:
  "patch_statefulset scenario_patcher ((app_cluster scenario_live)\<lparr>config_error := True\<rparr>)
     = (Some ConfigError,
        (app_cluster scenario_live)\<lparr>config_error := True, logs := [Error_failed ConfigError]\<rparr>)
   \<and> fst (patch_statefulset scenario_patcher absent_cluster) = Some (ApiError 404)
   \<and> logs (snd (patch_statefulset scenario_patcher absent_cluster)) = [Error_failed (ApiError 404)]
   \<and> calls (snd (patch_statefulset scenario_patcher absent_cluster)) = [Get ''app'' ''model'']
   \<and> fst (patch_statefulset scenario_patcher ((app_cluster scenario_live)\<lparr>get_fault := Some 500\<rparr>))
       = Some (ApiError 500)"
proof -
  let ?w1 = "(app_cluster scenario_live)\<lparr>config_error := True\<rparr>"
  let ?w3 = "(app_cluster scenario_live)\<lparr>get_fault := Some 500\<rparr>"
  have "config_error ?w1" by simp
  with reconcile_get_failure [of ?w1 scenario_patcher]
  have 1: "patch_statefulset scenario_patcher ?w1
             = (Some ConfigError, log (Error_failed ConfigError) ?w1)"
    by blast
  have a: "\<not> config_error absent_cluster \<and> namespace_file absent_cluster = Some ''model''
         \<and> get_fault absent_cluster = None
         \<and> objects absent_cluster (statefulset_name scenario_patcher, ''model'') = None"
    by (simp add: absent_cluster_def cluster_with_def scenario_patcher_def app_patcher_def)
  with reconcile_get_failure [of absent_cluster scenario_patcher "''model''" "ApiError 404"]
  have 2: "fst (patch_statefulset scenario_patcher absent_cluster) = Some (ApiError 404)
         \<and> logs (snd (patch_statefulset scenario_patcher absent_cluster))
             = logs absent_cluster @ [Error_failed (ApiError 404)]
         \<and> new_calls absent_cluster (snd (patch_statefulset scenario_patcher absent_cluster))
             = [Get (statefulset_name scenario_patcher) ''model'']"
    by blast
  have "\<not> config_error ?w3 \<and> namespace_file ?w3 = Some ''model''
         \<and> fst (api_get (statefulset_name scenario_patcher) ''model'' ?w3) = Inl (ApiError 500)"
    by (simp add: api_get_def app_cluster_def cluster_with_def)
  with reconcile_get_failure [of ?w3 scenario_patcher "''model''" "ApiError 500"]
  have 3: "fst (patch_statefulset scenario_patcher ?w3) = Some (ApiError 500)"
    by blast
  from 1 2 3 show ?thesis
    by (simp add: log_def new_calls_def absent_cluster_def cluster_with_def app_cluster_def
        scenario_patcher_def app_patcher_def)
qed

section \<open>A container without a resources object\<close>

text \<open>
  C10: when the GET is served and some managed container of the fetched object has no
  \<^verbatim>\<open>resources\<close> object, the drift check of that container raises \<^verbatim>\<open>AttributeError\<close>
  and so does the reconcile, which has then issued the GET only and logged nothing;
  with a \<^verbatim>\<open>resources\<close> object whose limits and requests are both absent the drift check
  raises nothing and answers what it answers on empty limits and requests.
\<close>

theorem missing_resources_raises:
  assumes "get_ok p w ns s"
    and "c \<in> set (containers s)"
    and "name c \<in> dom (resource_updates p)"
    and "resources c = None"
  shows "patch_statefulset p w =
           (Some AttributeError, w\<lparr>calls := calls w @ [Get (statefulset_name p) ns]\<rparr>)
     \<and> (\<forall>rs. is_patched c rs = Inl AttributeError)
     \<and> (\<forall>rs. is_patched (c\<lparr>resources := Some \<lparr>limits = None, requests = None\<rparr>\<rparr>) rs
             = is_patched (c\<lparr>resources := Some \<lparr>limits = Some Map.empty, requests = Some Map.empty\<rparr>\<rparr>) rs
           \<and> (\<exists>b. is_patched (c\<lparr>resources := Some \<lparr>limits = None, requests = None\<rparr>\<rparr>) rs = Inr b))"
proof -
  have "list_ex (lacks_resources (resource_updates p)) (containers s)"
    using assms(2-4) by (force simp: list_ex_iff lacks_resources_def)
  then obtain e where "patch_containers (resource_updates p) (containers s) False = Inl e"
    using patch_containers_Inl [of "resource_updates p" "containers s" False] by blast
  from patch_statefulset_raised [OF assms(1) this] assms(4) show ?thesis
    by (simp add: is_patched_def or_empty_def Let_def)
qed

text \<open>C10 at a managed container \<^verbatim>\<open>b\<close> without a \<^verbatim>\<open>resources\<close> object.\<close>

theorem missing_resources_raises_witness:
  "patch_statefulset raising_patcher (app_cluster raising_live)
     = (Some AttributeError, (app_cluster raising_live)\<lparr>calls := [Get ''app'' ''model'']\<rparr>)
   \<and> is_patched (bare_container ''b'') [''cpu'' \<mapsto> PInt 1] = Inl AttributeError
   \<and> is_patched (unset_container ''b'') [''cpu'' \<mapsto> PInt 1] = Inr False"
proof -
  let ?s = "\<lparr>metadata_name = ''app'', containers = raising_live\<rparr>"
  have ok: "get_ok raising_patcher (app_cluster raising_live) ''model'' ?s"
    by (simp add: get_ok_def app_cluster_def cluster_with_def raising_patcher_def app_patcher_def)
  have c: "bare_container ''b'' \<in> set (containers ?s)"
    "name (bare_container ''b'') \<in> dom (resource_updates raising_patcher)"
    "resources (bare_container ''b'') = None"
    by (simp_all add: raising_live_def raising_patcher_def app_patcher_def bare_container_def)
  have "is_patched (unset_container ''b'') [''cpu'' \<mapsto> PInt 1] = Inr False"
    by (simp add: model_defs unset_container_def)
  with missing_resources_raises [OF ok c] show ?thesis
    by (simp add: raising_patcher_def app_patcher_def app_cluster_def cluster_with_def)
qed

end
